theory Spec2Isabelle
  imports Main
begin

section \<open>Strings of the host language\<close>

text \<open>
  A source string is a list of code units; here a code unit is a \<^typ>\<open>char\<close>.
  Numbers are integers. An index outside a string reads \<open>undefined\<close>, which is
  \<open>None\<close> below.
\<close>

definition startsWith :: "string \<Rightarrow> string \<Rightarrow> bool" where
  "startsWith s p = (take (length p) s = p)"

text \<open>\<open>s.indexOf(p)\<close>: the first position where \<open>p\<close> occurs in \<open>s\<close>, or \<open>-1\<close>.\<close>

fun indexOf :: "string \<Rightarrow> string \<Rightarrow> int" where
  "indexOf [] p = (if p = [] then 0 else - 1)"
| "indexOf (c # cs) p =
     (if startsWith (c # cs) p then 0
      else (let r = indexOf cs p in if r < 0 then - 1 else r + 1))"

text \<open>\<open>s.substr(n)\<close> and \<open>s.substr(0, n)\<close> for \<open>n \<ge> 0\<close>.\<close>

definition substr :: "string \<Rightarrow> int \<Rightarrow> string" where
  "substr s n = drop (nat n) s"

definition substr0 :: "string \<Rightarrow> int \<Rightarrow> string" where
  "substr0 s n = take (nat n) s"

definition charAt :: "string \<Rightarrow> int \<Rightarrow> char option" where
  "charAt s i = (if 0 \<le> i \<and> i < int (length s) then Some (s ! nat i) else None)"

section \<open>Data model\<close>

record Range =
  offset :: int
  lengthR :: int

record EntityRange = Range +
  key :: int

record InlineStyleRange = Range +
  style :: string

datatype SectionType = ENTITY | HASHTAG

record PreSection = Range +
  keyP :: "int option"
  typeP :: SectionType

record HashConfig =
  trigger :: string
  separator :: string

record Section =
  start :: int
  endS :: int
  entityKey :: "int option"
  typeS :: "SectionType option"

record Block =
  blockKey :: string
  "text" :: string
  blockType :: string
  depth :: int
  entityRanges :: "EntityRange list"
  inlineStyleRanges :: "InlineStyleRange list"

text \<open>
  A value stored in an entity's \<open>data\<close>; a key that is absent reads \<open>undefined\<close>.
  Numbers are integers here.
\<close>

datatype JsValue = JNull | JBool bool | JNum int | JStr string

record Entity =
  typeE :: string
  mutability :: string
  data :: "string \<rightharpoonup> JsValue"

type_synonym EntityMap = "int \<rightharpoonup> Entity"

text \<open>The one exception the modelled code can raise: a property read on \<open>undefined\<close>.\<close>

datatype error = TypeError

text \<open>A caller's transform sees the looked-up entity, which may be \<open>undefined\<close>.\<close>

type_synonym CustomEntityTransform = "Entity option \<Rightarrow> string \<Rightarrow> string option"

datatype TransformValue = Single string | Pair string string

text \<open>
  A key of \<open>customStyleTransform\<close> is absent (\<open>None\<close>), or present with a value that is
  \<open>undefined\<close> or \<open>null\<close> (\<open>Some None\<close>), or present with a token or a pair of tokens.
  An absent boolean option reads as false, an absent table as the empty table.
\<close>

record Config =
  customStyleTransform :: "string \<rightharpoonup> TransformValue option"
  emptyLineBeforeBlock :: bool
  printBreakLineLiteral :: bool
  blockTypesMapping :: "string \<rightharpoonup> string"
  rawCssInlineStyles :: bool

definition BOOLEAN_INLINE_STYLE_NAMES :: "string list" where
  "BOOLEAN_INLINE_STYLE_NAMES =
     [''SUBSCRIPT'', ''SUPERSCRIPT'', ''CODE'', ''STRIKETHROUGH'', ''UNDERLINE'', ''ITALIC'',
      ''BOLD'', ''BLOCKQUOTE'', ''CODE-BLOCK'']"

definition STRING_INLINE_STYLE_NAMES :: "string list" where
  "STRING_INLINE_STYLE_NAMES = [''COLOR'', ''BGCOLOR'', ''FONTSIZE'', ''FONTFAMILY'', ''RAWCSS'']"

definition INLINE_STYLE_NAMES :: "string list" where
  "INLINE_STYLE_NAMES = BOOLEAN_INLINE_STYLE_NAMES @ STRING_INLINE_STYLE_NAMES"

text \<open>A slot of a style array holds \<open>true\<close> or a string; an unset slot is \<open>undefined\<close>.\<close>

datatype StyleValue = BoolV bool | StrV string

text \<open>
  The per-character style arrays of a block. An array is a map from indices, since a write
  past its end extends it; a name that is no property of the record reads \<open>undefined\<close>.
\<close>

record InlineStyles =
  arrays :: "string \<rightharpoonup> (int \<rightharpoonup> StyleValue)"
  lengthI :: int

type_synonym SingleInlineStyles = "(string \<times> StyleValue) list"

record StyleSection =
  styles :: SingleInlineStyles
  textS :: "char option list"
  startSS :: int
  endSS :: int

section \<open>Hashtag detection\<close>

text \<open>
  The variables of the loop of \<open>getHashtagRanges\<close>: the working text, the running
  offset, the last search result and the ranges pushed so far.
\<close>

record HashState =
  textH :: string
  counter :: int
  startIndex :: int
  preSections :: "PreSection list"

definition hashtagCond :: "HashState \<Rightarrow> bool" where
  "hashtagCond s = (length (textH s) > 0 \<and> startIndex s \<ge> 0)"

text \<open>The first half of the loop body: look for the next trigger.\<close>

definition hashtagSeek :: "HashConfig \<Rightarrow> HashState \<Rightarrow> HashState" where
  "hashtagSeek hc s =
     (if startsWith (textH s) (trigger hc)
      then s\<lparr>startIndex := 0, counter := 0,
             textH := substr (textH s) (int (length (trigger hc)))\<rparr>
      else (let si = indexOf (textH s) (separator hc @ trigger hc) in
            if si \<ge> 0
            then s\<lparr>startIndex := si,
                   textH := substr (textH s) (si + int (length (separator hc @ trigger hc))),
                   counter := counter s + si + int (length (separator hc))\<rparr>
            else s\<lparr>startIndex := si\<rparr>))"

text \<open>The second half: record the hashtag that starts the working text.\<close>

definition hashtagEmit :: "HashConfig \<Rightarrow> HashState \<Rightarrow> HashState" where
  "hashtagEmit hc s =
     (if startIndex s \<ge> 0
      then (let endIndex = (if indexOf (textH s) (separator hc) \<ge> 0
                            then indexOf (textH s) (separator hc)
                            else int (length (textH s)));
                hashtagText = substr0 (textH s) endIndex;
                pushed = (if hashtagText \<noteq> []
                          then preSections s @
                               [\<lparr>offset = counter s,
                                 lengthR = int (length hashtagText) + int (length (trigger hc)),
                                 keyP = None, typeP = HASHTAG\<rparr>]
                          else preSections s)
            in s\<lparr>preSections := pushed,
                 counter := counter s + int (length (trigger hc))\<rparr>)
      else s)"

definition hashtagStep :: "HashConfig \<Rightarrow> HashState \<Rightarrow> HashState" where
  "hashtagStep hc s = hashtagEmit hc (hashtagSeek hc s)"

text \<open>The loop may run forever (an empty trigger never shrinks the text): \<open>None\<close>.\<close>

partial_function (option) hashtagLoop :: "HashConfig \<Rightarrow> HashState \<Rightarrow> PreSection list option" where
  "hashtagLoop hc s =
     (if hashtagCond s then hashtagLoop hc (hashtagStep hc s) else Some (preSections s))"

declare hashtagLoop.simps [code]

definition getHashtagRanges :: "string \<Rightarrow> HashConfig \<Rightarrow> PreSection list option" where
  "getHashtagRanges txt hc =
     hashtagLoop hc \<lparr>textH = txt, counter = 0, startIndex = 0, preSections = []\<rparr>"


section \<open>Atomic blocks\<close>

text \<open>The code units that \<open>trim\<close> removes, among those a \<^typ>\<open>char\<close> can hold.\<close>

definition isWhitespace :: "char \<Rightarrow> bool" where
  "isWhitespace c = (c = CHR 0x09 \<or> c = CHR 0x0A \<or> c = CHR 0x0B \<or> c = CHR 0x0C
                     \<or> c = CHR 0x0D \<or> c = CHR 0x20 \<or> c = CHR 0xA0)"

definition trim :: "string \<Rightarrow> string" where
  "trim s = rev (dropWhile isWhitespace (rev (dropWhile isWhitespace s)))"

definition isEmptyString :: "string \<Rightarrow> bool" where
  "isEmptyString str = (length str = 0 \<or> length (trim str) = 0)"

definition isAtomicBlock :: "Block \<Rightarrow> bool" where
  "isAtomicBlock block = (length (entityRanges block) > 0 \<and> isEmptyString (text block))"

section \<open>Entity rendering\<close>

definition digitChar :: "nat \<Rightarrow> char" where
  "digitChar d = ''0123456789'' ! d"

fun showNat :: "nat \<Rightarrow> string" where
  "showNat n = (if n < 10 then [digitChar n] else showNat (n div 10) @ [digitChar (n mod 10)])"

declare showNat.simps [simp del]

definition showInt :: "int \<Rightarrow> string" where
  "showInt n = (if n < 0 then CHR ''-'' # showNat (nat (- n)) else showNat (nat n))"

text \<open>What a template literal prints for a value.\<close>

definition toStr :: "JsValue option \<Rightarrow> string" where
  "toStr v = (case v of None \<Rightarrow> ''undefined'' | Some JNull \<Rightarrow> ''null''
              | Some (JBool b) \<Rightarrow> (if b then ''true'' else ''false'')
              | Some (JNum n) \<Rightarrow> showInt n | Some (JStr s) \<Rightarrow> s)"

definition truthyJs :: "JsValue option \<Rightarrow> bool" where
  "truthyJs v = (case v of None \<Rightarrow> False | Some JNull \<Rightarrow> False | Some (JBool b) \<Rightarrow> b
                 | Some (JNum n) \<Rightarrow> n \<noteq> 0 | Some (JStr s) \<Rightarrow> s \<noteq> [])"

text \<open>The built-in rendering by entity type; reading a field of no entity raises.\<close>

definition builtinEntityMarkdown :: "Entity option \<Rightarrow> string \<Rightarrow> error + string" where
  \<open>builtinEntityMarkdown entity txt =
     (case entity of None \<Rightarrow> Inl TypeError
      | Some e \<Rightarrow>
          if typeE e = ''LINK'' \<or> typeE e = ''MENTION''
          then Inr (''['' @ txt @ '']('' @ toStr (data e ''url'') @ '')'')
          else if typeE e = ''IMAGE''
          then Inr (''!['' @ (if truthyJs (data e ''alt'') then toStr (data e ''alt'') else [])
                    @ '']('' @ toStr (data e ''src'') @ '')'')
          else if typeE e = ''EMBEDDED_LINK''
          then Inr (''<iframe width="'' @ toStr (data e ''width'') @ ''" height="''
                    @ toStr (data e ''height'') @ ''" src="'' @ toStr (data e ''src'')
                    @ ''" frameBorder="0" allowFullScreen />'')
          else Inr txt)\<close>

text \<open>\<open>customEntityTransform\<close> is \<open>None\<close> when the caller passed no function.\<close>

definition getEntityMarkdown ::
  "Entity option \<Rightarrow> string \<Rightarrow> CustomEntityTransform option \<Rightarrow> error + string" where
  "getEntityMarkdown entity txt customEntityTransform =
     (case (case customEntityTransform of None \<Rightarrow> None | Some f \<Rightarrow> f entity txt) of
        Some html \<Rightarrow> Inr html
      | None \<Rightarrow> builtinEntityMarkdown entity txt)"

section \<open>Range segmentation\<close>

definition entityPreSection :: "EntityRange \<Rightarrow> PreSection" where
  "entityPreSection r = \<lparr>offset = offset r, lengthR = lengthR r, keyP = Some (key r), typeP = ENTITY\<rparr>"

text \<open>Entity ranges, then hashtag ranges, in a stable sort by offset.\<close>

definition sectionRanges :: "Block \<Rightarrow> PreSection list \<Rightarrow> PreSection list" where
  "sectionRanges block hashtags =
     sort_key offset (map entityPreSection (entityRanges block) @ hashtags)"

definition gapSection :: "int \<Rightarrow> int \<Rightarrow> Section" where
  "gapSection s e = \<lparr>start = s, endS = e, entityKey = None, typeS = None\<rparr>"

definition rangeSection :: "PreSection \<Rightarrow> Section" where
  "rangeSection r = \<lparr>start = offset r, endS = offset r + lengthR r,
                     entityKey = keyP r, typeS = Some (typeP r)\<rparr>"

text \<open>
  The walk over the sorted ranges, from \<open>lastOffset\<close>: the sections pushed for the first
  range, then those of the rest; after the last range, the trailing section.
\<close>

fun emitSections :: "int \<Rightarrow> PreSection list \<Rightarrow> int \<Rightarrow> Section list" where
  "emitSections lastOffset [] textLength =
     (if lastOffset < textLength then [gapSection lastOffset textLength] else [])"
| "emitSections lastOffset (r # rs) textLength =
     (if offset r > lastOffset then [gapSection lastOffset (offset r - 1)] else [])
     @ rangeSection r # emitSections (offset r + lengthR r) rs textLength"

definition getSections :: "Block \<Rightarrow> HashConfig \<Rightarrow> Section list option" where
  "getSections block hashConfig =
     (case getHashtagRanges (text block) hashConfig of None \<Rightarrow> None
      | Some hashtags \<Rightarrow>
          Some (emitSections 0 (sectionRanges block hashtags) (int (length (text block)))))"



section \<open>Style materialisation\<close>

text \<open>
  \<open>JSON.parse\<close> belongs to the platform and is a parameter \<open>jsonEntries\<close> of the model:
  \<open>jsonEntries s\<close> is \<open>None\<close> when \<open>s\<close> does not parse to an object, and otherwise the
  object's entries in order, the values as a template literal prints them.
\<close>

type_synonym JsonEntries = "string \<Rightarrow> (string \<times> string) list option"

definition isJSONObjectString :: "JsonEntries \<Rightarrow> string \<Rightarrow> bool" where
  "isJSONObjectString jsonEntries jsonString = (jsonEntries jsonString \<noteq> None)"

definition isUpper :: "char \<Rightarrow> bool" where
  "isUpper c = (65 \<le> (of_char c :: nat) \<and> (of_char c :: nat) \<le> 90)"

definition toLowerCase :: "char \<Rightarrow> char" where
  "toLowerCase c = (if isUpper c then char_of ((of_char c :: nat) + 32) else c)"

text \<open>\<open>k.replace(/[A-Z]/g, ...)\<close>: a dash and the lower-case letter for each capital.\<close>

definition kebab :: "string \<Rightarrow> string" where
  "kebab k = concat (map (\<lambda>c. if isUpper c then [CHR ''-'', toLowerCase c] else [c]) k)"

fun joinWith :: "string \<Rightarrow> string list \<Rightarrow> string" where
  "joinWith sep [] = []"
| "joinWith sep [x] = x"
| "joinWith sep (x # y # ys) = x @ sep @ joinWith sep (y # ys)"

definition rawCssOf :: "(string \<times> string) list \<Rightarrow> string" where
  "rawCssOf entries = joinWith '';'' (map (\<lambda>(k, v). kebab k @ '':'' @ v) entries) @ '';''"

definition substring :: "string \<Rightarrow> nat \<Rightarrow> string" where
  "substring s n = drop n s"

text \<open>
  \<open>inlineStyles[name][i] = v\<close>. Every name written below is a property of the record
  that \<open>getStyleArrayForBlock\<close> has just built, so the first case does not occur.
\<close>

definition setStyle :: "string \<Rightarrow> int \<Rightarrow> StyleValue \<Rightarrow> InlineStyles \<Rightarrow> InlineStyles" where
  "setStyle name i v inlineStyles =
     (case arrays inlineStyles name of None \<Rightarrow> inlineStyles
      | Some arr \<Rightarrow> inlineStyles\<lparr>arrays := (arrays inlineStyles)(name \<mapsto> arr(i \<mapsto> v))\<rparr>)"

text \<open>The body of the inner loop, for one style range and one index.\<close>

definition applyStyleAt ::
  "JsonEntries \<Rightarrow> Config \<Rightarrow> string \<Rightarrow> int \<Rightarrow> InlineStyles \<Rightarrow> InlineStyles" where
  "applyStyleAt jsonEntries config sty i inlineStyles =
     (if startsWith sty ''color-'' then setStyle ''COLOR'' i (StrV (substring sty 6)) inlineStyles
      else if startsWith sty ''bgcolor-''
      then setStyle ''BGCOLOR'' i (StrV (substring sty 8)) inlineStyles
      else if startsWith sty ''fontsize-''
      then setStyle ''FONTSIZE'' i (StrV (substring sty 9)) inlineStyles
      else if startsWith sty ''fontfamily-''
      then setStyle ''FONTFAMILY'' i (StrV (substring sty 11)) inlineStyles
      else if sty \<in> set BOOLEAN_INLINE_STYLE_NAMES
      then setStyle sty i (BoolV True) inlineStyles
      else if isJSONObjectString jsonEntries sty \<and> rawCssInlineStyles config
      then (case jsonEntries sty of None \<Rightarrow> inlineStyles
            | Some entries \<Rightarrow> setStyle ''RAWCSS'' i (StrV (rawCssOf entries)) inlineStyles)
      else inlineStyles)"

definition applyStyleRange ::
  "JsonEntries \<Rightarrow> Config \<Rightarrow> InlineStyleRange \<Rightarrow> InlineStyles \<Rightarrow> InlineStyles" where
  "applyStyleRange jsonEntries config r inlineStyles =
     fold (applyStyleAt jsonEntries config (style r))
          [offset r .. offset r + lengthR r - 1] inlineStyles"

definition emptyInlineStyles :: "int \<Rightarrow> InlineStyles" where
  "emptyInlineStyles n =
     \<lparr>arrays = (\<lambda>name. if name \<in> set INLINE_STYLE_NAMES then Some Map.empty else None),
      lengthI = n\<rparr>"

definition getStyleArrayForBlock :: "JsonEntries \<Rightarrow> Block \<Rightarrow> Config \<Rightarrow> InlineStyles" where
  "getStyleArrayForBlock jsonEntries block config =
     fold (applyStyleRange jsonEntries config) (inlineStyleRanges block)
          (emptyInlineStyles (int (length (text block))))"

section \<open>Style segmentation\<close>

text \<open>\<open>every\<close> over the keys stops at the first difference; a key with no array raises.\<close>

fun everyKeySame :: "InlineStyles \<Rightarrow> int \<Rightarrow> string list \<Rightarrow> error + bool" where
  "everyKeySame inlineStyles index [] = Inr True"
| "everyKeySame inlineStyles index (k # ks) =
     (case arrays inlineStyles k of None \<Rightarrow> Inl TypeError
      | Some arr \<Rightarrow> if arr index = arr (index - 1)
                    then everyKeySame inlineStyles index ks else Inr False)"

text \<open>The \<open>catch\<close> turns a raised error into \<open>false\<close>.\<close>

definition sameStyleAsPrevious :: "InlineStyles \<Rightarrow> string list \<Rightarrow> int \<Rightarrow> bool" where
  "sameStyleAsPrevious inlineStyles matchKeys index =
     (if index > 0 \<and> index < lengthI inlineStyles
      then (case everyKeySame inlineStyles index matchKeys of Inl e \<Rightarrow> False | Inr b \<Rightarrow> b)
      else False)"

definition truthy :: "StyleValue \<Rightarrow> bool" where
  "truthy v = (case v of BoolV b \<Rightarrow> b | StrV s \<Rightarrow> s \<noteq> [])"

fun stylesOfKeys :: "InlineStyles \<Rightarrow> int \<Rightarrow> string list \<Rightarrow> error + SingleInlineStyles" where
  "stylesOfKeys inlineStyles off [] = Inr []"
| "stylesOfKeys inlineStyles off (k # ks) =
     (case arrays inlineStyles k of None \<Rightarrow> Inl TypeError
      | Some arr \<Rightarrow>
          (case stylesOfKeys inlineStyles off ks of Inl e \<Rightarrow> Inl e
           | Inr rest \<Rightarrow>
               (case arr off of None \<Rightarrow> Inr rest
                | Some v \<Rightarrow> if truthy v then Inr ((k, v) # rest) else Inr rest)))"

definition getStylesAtOffset :: "InlineStyles \<Rightarrow> int \<Rightarrow> error + SingleInlineStyles" where
  "getStylesAtOffset inlineStyles off = stylesOfKeys inlineStyles off INLINE_STYLE_NAMES"

text \<open>The update of the last section pushed; with none pushed the read raises.\<close>

definition extendLast :: "StyleSection list \<Rightarrow> char option \<Rightarrow> int \<Rightarrow> error + StyleSection list" where
  "extendLast styleSections ch e =
     (if styleSections = [] then Inl TypeError
      else Inr (butlast styleSections
                @ [(last styleSections)\<lparr>textS := textS (last styleSections) @ [ch], endSS := e\<rparr>]))"

text \<open>
  The loop of \<open>getStyleSections\<close> at index \<open>i\<close>. It has two branches: the first index,
  and an index styled as its predecessor. At any other index nothing is pushed.
\<close>

function styleLoop ::
  "string \<Rightarrow> InlineStyles \<Rightarrow> string list \<Rightarrow> int \<Rightarrow> int \<Rightarrow> int \<Rightarrow> StyleSection list
   \<Rightarrow> error + StyleSection list" where
  "styleLoop txt inlineStyles matchKeys startI endI i styleSections =
     (if i < endI then
        (if i = startI then
           (case getStylesAtOffset inlineStyles i of Inl e \<Rightarrow> Inl e
            | Inr sty \<Rightarrow>
                styleLoop txt inlineStyles matchKeys startI endI (i + 1)
                  (styleSections @
                   [\<lparr>styles = sty, textS = [charAt txt i], startSS = i, endSS = i + 1\<rparr>]))
         else if sameStyleAsPrevious inlineStyles matchKeys i then
           (case extendLast styleSections (charAt txt i) (i + 1) of Inl e \<Rightarrow> Inl e
            | Inr extended \<Rightarrow>
                styleLoop txt inlineStyles matchKeys startI endI (i + 1) extended)
         else styleLoop txt inlineStyles matchKeys startI endI (i + 1) styleSections)
      else Inr styleSections)"
  by pat_completeness auto
termination
  by (relation "measure (\<lambda>(txt, inlineStyles, matchKeys, startI, endI, i, styleSections).
                  nat (endI - i))") auto

declare styleLoop.simps [simp del]

definition getStyleSections ::
  "JsonEntries \<Rightarrow> Block \<Rightarrow> string list \<Rightarrow> int \<Rightarrow> int \<Rightarrow> Config \<Rightarrow> error + StyleSection list" where
  "getStyleSections jsonEntries block matchKeys startI endI config =
     (if length (text block) > 0
      then styleLoop (text block) (getStyleArrayForBlock jsonEntries block config)
             matchKeys startI endI startI []
      else Inr [])"



section \<open>Markup composition\<close>

text \<open>
  The escaper maps each element of the array, and \<open>join\<close> prints an \<open>undefined\<close>
  element as the empty string. The image of a newline is written in the source as
  backslash, \<open>s\<close>, backslash, \<open>s\<close>, newline.
\<close>

definition escapeChar :: "char option \<Rightarrow> string option" where
  "escapeChar ch =
     (case ch of None \<Rightarrow> None
      | Some c \<Rightarrow>
          if c = CHR 0x0A then Some [CHR 0x5C, CHR ''s'', CHR 0x5C, CHR ''s'', CHR 0x0A]
          else if c = CHR ''&'' then Some ''&amp;''
          else if c = CHR ''<'' then Some ''&lt;''
          else if c = CHR ''>'' then Some ''&gt;''
          else Some [c])"

definition joinEmpty :: "string option list \<Rightarrow> string" where
  "joinEmpty parts = concat (map (\<lambda>p. case p of None \<Rightarrow> [] | Some s \<Rightarrow> s) parts)"

definition getSectionText :: "char option list \<Rightarrow> string" where
  "getSectionText txt = (if length txt = 0 then [] else joinEmpty (map escapeChar txt))"

definition addInlineStyleMarkdown ::
  "string \<Rightarrow> string \<Rightarrow> (string \<Rightarrow> TransformValue option) \<Rightarrow> string" where
  "addInlineStyleMarkdown sty content styleTransform =
     (case styleTransform sty of None \<Rightarrow> content
      | Some (Single v) \<Rightarrow> v @ content @ v
      | Some (Pair left right) \<Rightarrow> left @ content @ right)"

definition getStyleTagSectionMarkdown ::
  "string list \<Rightarrow> string \<Rightarrow> (string \<Rightarrow> TransformValue option) \<Rightarrow> string" where
  "getStyleTagSectionMarkdown stys txt styleTransform =
     fold (\<lambda>sty acc. addInlineStyleMarkdown sty acc styleTransform) stys txt"

definition valueString :: "StyleValue \<Rightarrow> string" where
  "valueString v = (case v of StrV s \<Rightarrow> s | BoolV b \<Rightarrow> (if b then ''true'' else ''false''))"

text \<open>The \<open>switch\<close> on the style name: what is appended to \<open>styleString\<close> and \<open>extra\<close>.\<close>

definition styleProperty :: "string \<Rightarrow> string \<Rightarrow> string \<times> string \<Rightarrow> string \<times> string" where
  \<open>styleProperty styleName sty acc =
     (if styleName = ''COLOR''
      then (fst acc @ ''color: '' @ sty @ '';'', snd acc @ '' data-color="true"'')
      else if styleName = ''BGCOLOR''
      then (fst acc @ ''background-color: '' @ sty @ '';'', snd acc @ '' data-bgcolor="true"'')
      else if styleName = ''FONTSIZE''
      then (fst acc @ ''font-size: '' @ sty @ ''px;'', snd acc @ '' data-fontsize="true"'')
      else if styleName = ''FONTFAMILY''
      then (fst acc @ ''font-family: '' @ sty @ '';'', snd acc @ '' data-fontfamily="true"'')
      else if styleName = ''RAWCSS''
      then (fst acc @ sty, snd acc @ '' data-rawcss="true"'')
      else acc)\<close>

definition stylePropertyStep :: "SingleInlineStyles \<Rightarrow> string \<Rightarrow> string \<times> string \<Rightarrow> string \<times> string" where
  "stylePropertyStep stys styleName acc =
     (case map_of stys styleName of None \<Rightarrow> acc
      | Some v \<Rightarrow> styleProperty styleName (valueString v) acc)"

definition addStylePropertyMarkdown :: "StyleSection \<Rightarrow> string" where
  \<open>addStylePropertyMarkdown styleSection =
     (let content = getSectionText (textS styleSection) in
      if length (styles styleSection) \<noteq> 0
      then (let acc = fold (stylePropertyStep (styles styleSection))
                           STRING_INLINE_STYLE_NAMES ([], [])
            in if list_all (\<lambda>c. c = CHR '';'') (fst acc) then content
               else ''<span style="'' @ fst acc @ ''"'' @ snd acc @ ''>'' @ content @ ''</span>'')
      else content)\<close>

definition defaultStyleTransform :: "string \<rightharpoonup> TransformValue" where
  "defaultStyleTransform =
     map_of [(''BOLD'', Single ''**''), (''ITALIC'', Single ''*''), (''UNDERLINE'', Single ''__''),
             (''STRIKETHROUGH'', Single ''~~''), (''CODE'', Single ''`''),
             (''CODE-BLOCK'', Pair (''```'' @ [CHR 0x0A]) (CHR 0x0A # ''```'')),
             (''BLOCKQUOTE'', Pair ''> '' []),
             (''SUPERSCRIPT'', Pair ''<sup>'' ''</sup>''),
             (''SUBSCRIPT'', Pair ''<sub>'' ''</sub>'')]"

text \<open>The defaults with the caller's table spread over them.\<close>

definition mergedStyleTransform :: "Config \<Rightarrow> string \<Rightarrow> TransformValue option" where
  "mergedStyleTransform config k =
     (case customStyleTransform config k of Some v \<Rightarrow> v | None \<Rightarrow> defaultStyleTransform k)"

text \<open>
  The outer \<open>forEach\<close> of \<open>getSectionMarkdown\<close>: each boolean-family section is split
  again by the string family, the inner sections rendered and wrapped in the tokens.
\<close>

fun renderStyleSections ::
  "JsonEntries \<Rightarrow> Block \<Rightarrow> Config \<Rightarrow> StyleSection list \<Rightarrow> error + string" where
  "renderStyleSections jsonEntries block config [] = Inr []"
| "renderStyleSections jsonEntries block config (styleSection # rest) =
     (case getStyleSections jsonEntries block STRING_INLINE_STYLE_NAMES
             (startSS styleSection) (endSS styleSection) config of
        Inl e \<Rightarrow> Inl e
      | Inr stylePropertySections \<Rightarrow>
          (case renderStyleSections jsonEntries block config rest of Inl e \<Rightarrow> Inl e
           | Inr restText \<Rightarrow>
               Inr (getStyleTagSectionMarkdown (map fst (styles styleSection))
                      (concat (map addStylePropertyMarkdown stylePropertySections))
                      (mergedStyleTransform config)
                    @ restText)))"

definition getSectionMarkdown ::
  "JsonEntries \<Rightarrow> Block \<Rightarrow> EntityMap \<Rightarrow> Section \<Rightarrow> CustomEntityTransform option \<Rightarrow> Config
   \<Rightarrow> error + string" where
  "getSectionMarkdown jsonEntries block entityMap section customEntityTransform config =
     (case getStyleSections jsonEntries block BOOLEAN_INLINE_STYLE_NAMES
             (start section) (endS section) config of
        Inl e \<Rightarrow> Inl e
      | Inr styleSections \<Rightarrow>
          (case renderStyleSections jsonEntries block config styleSections of Inl e \<Rightarrow> Inl e
           | Inr sectionText \<Rightarrow>
               (case typeS section of
                  Some ENTITY \<Rightarrow>
                    (case entityKey section of None \<Rightarrow> Inr sectionText
                     | Some k \<Rightarrow> getEntityMarkdown (entityMap k) sectionText customEntityTransform)
                | Some HASHTAG \<Rightarrow> Inr (''['' @ sectionText @ '']('' @ sectionText @ '')'')
                | None \<Rightarrow> Inr sectionText)))"

section \<open>Block assembly\<close>

text \<open>\<open>s.replace(' ', '&nbsp;')\<close> replaces the first space only.\<close>

fun replaceFirstSpace :: "string \<Rightarrow> string" where
  "replaceFirstSpace [] = []"
| "replaceFirstSpace (c # cs) = (if c = CHR '' '' then ''&nbsp;'' @ cs else c # replaceFirstSpace cs)"

text \<open>
  The loop of \<open>trimLeadingZeros\<close> tests the original text at \<open>i\<close> and rewrites
  the copy. An index past the original reads \<open>undefined\<close> and ends the loop.
\<close>

function trimLeadingLoop :: "string \<Rightarrow> string \<Rightarrow> int \<Rightarrow> string" where
  "trimLeadingLoop sectionText replacedText i =
     (if i < int (length replacedText) then
        (if charAt sectionText i = Some (CHR '' '')
         then trimLeadingLoop sectionText (replaceFirstSpace replacedText) (i + 1)
         else replacedText)
      else replacedText)"
  by pat_completeness auto
termination
  by (relation "measure (\<lambda>(sectionText, replacedText, i). nat (int (length sectionText) - i))")
     (auto simp: charAt_def split: if_splits)

declare trimLeadingLoop.simps [simp del]

definition trimLeadingZeros :: "string \<Rightarrow> string" where
  "trimLeadingZeros sectionText =
     (if sectionText \<noteq> [] then trimLeadingLoop sectionText sectionText 0 else sectionText)"

function trimTrailingLoop :: "string \<Rightarrow> int \<Rightarrow> string" where
  "trimTrailingLoop replacedText i =
     (if i \<ge> 0 then
        (if charAt replacedText i = Some (CHR '' '')
         then trimTrailingLoop
                (take (nat i) replacedText @ ''&nbsp;'' @ drop (nat (i + 1)) replacedText) (i - 1)
         else replacedText)
      else replacedText)"
  by pat_completeness auto
termination
  by (relation "measure (\<lambda>(replacedText, i). nat (i + 1))") auto

declare trimTrailingLoop.simps [simp del]

definition trimTrailingZeros :: "string \<Rightarrow> string" where
  "trimTrailingZeros sectionText =
     (if sectionText \<noteq> []
      then trimTrailingLoop sectionText (int (length sectionText) - 1) else sectionText)"

text \<open>
  The \<open>forEach\<close> of \<open>getBlockContentMarkdown\<close> from position \<open>index\<close>; \<open>n\<close> is the
  number of sections of the block. The second test is the \<open>else\<close> of the first.
\<close>

fun renderSections ::
  "JsonEntries \<Rightarrow> Block \<Rightarrow> EntityMap \<Rightarrow> CustomEntityTransform option \<Rightarrow> Config \<Rightarrow> int \<Rightarrow> int
   \<Rightarrow> Section list \<Rightarrow> error + string list" where
  "renderSections jsonEntries block entityMap customEntityTransform config n index [] = Inr []"
| "renderSections jsonEntries block entityMap customEntityTransform config n index (section # rest) =
     (case getSectionMarkdown jsonEntries block entityMap section customEntityTransform config of
        Inl e \<Rightarrow> Inl e
      | Inr sectionText \<Rightarrow>
          (case renderSections jsonEntries block entityMap customEntityTransform config n
                  (index + 1) rest of
             Inl e \<Rightarrow> Inl e
           | Inr restTexts \<Rightarrow>
               Inr ((if index = 0 then trimLeadingZeros sectionText
                     else if index = n - 1 then trimTrailingZeros sectionText
                     else sectionText) # restTexts)))"

text \<open>
  The result is \<open>None\<close> when the hashtag scan does not return, \<open>Some (Inl e)\<close> when the
  rendering raises \<open>e\<close>, and \<open>Some (Inr s)\<close> when it returns \<open>s\<close>.
\<close>

definition getBlockContentMarkdown ::
  "JsonEntries \<Rightarrow> Block \<Rightarrow> EntityMap \<Rightarrow> HashConfig \<Rightarrow> CustomEntityTransform option \<Rightarrow> Config
   \<Rightarrow> (error + string) option" where
  "getBlockContentMarkdown jsonEntries block entityMap hashConfig customEntityTransform config =
     (if isAtomicBlock block
      then (case entityRanges block of
              [] \<Rightarrow> Some (Inl TypeError)
            | r # rs \<Rightarrow> Some (getEntityMarkdown (entityMap (key r)) [] customEntityTransform))
      else (case getSections block hashConfig of None \<Rightarrow> None
            | Some entitySections \<Rightarrow>
                (case renderSections jsonEntries block entityMap customEntityTransform config
                        (int (length entitySections)) 0 entitySections of
                   Inl e \<Rightarrow> Some (Inl e)
                 | Inr blockMarkdown \<Rightarrow> Some (Inr (concat blockMarkdown)))))"



section \<open>Properties of a list of sections\<close>

text \<open>Section \<open>s\<close> holds the character at index \<open>i\<close>.\<close>

definition covers :: "int \<Rightarrow> Section \<Rightarrow> bool" where
  "covers i s = (start s \<le> i \<and> i < endS s)"

definition coverCount :: "Section list \<Rightarrow> int \<Rightarrow> nat" where
  "coverCount sections i = length (filter (covers i) sections)"

text \<open>The sections tile \<open>[lo, n)\<close>: each begins where the one before ended.\<close>

fun tilesFrom :: "int \<Rightarrow> int \<Rightarrow> Section list \<Rightarrow> bool" where
  "tilesFrom lo n [] = (lo = n)"
| "tilesFrom lo n (s # ss) = (start s = lo \<and> start s \<le> endS s \<and> tilesFrom (endS s) n ss)"

text \<open>The sections ascend without overlap: each begins at or after the end of the one before.\<close>

fun separated :: "int \<Rightarrow> Section list \<Rightarrow> bool" where
  "separated lo [] = True"
| "separated lo (s # ss) = (lo \<le> start s \<and> start s \<le> endS s \<and> separated (endS s) ss)"

text \<open>The same for the sorted ranges that go into the walk.\<close>

fun disjointRanges :: "int \<Rightarrow> PreSection list \<Rightarrow> bool" where
  "disjointRanges lo [] = True"
| "disjointRanges lo (r # rs) =
     (lo \<le> offset r \<and> 0 \<le> lengthR r \<and> disjointRanges (offset r + lengthR r) rs)"

text \<open>The value of \<open>lastOffset\<close> after the walk.\<close>

fun finalOffset :: "int \<Rightarrow> PreSection list \<Rightarrow> int" where
  "finalOffset lastOffset [] = lastOffset"
| "finalOffset lastOffset (r # rs) = finalOffset (offset r + lengthR r) rs"

definition tagged :: "Section \<Rightarrow> bool" where
  "tagged s = (typeS s \<noteq> None)"

section \<open>Example inputs\<close>

definition defaultHashConfig :: HashConfig where
  "defaultHashConfig = \<lparr>trigger = ''#'', separator = '' ''\<rparr>"

definition defaultConfig :: Config where
  "defaultConfig = \<lparr>customStyleTransform = Map.empty, emptyLineBeforeBlock = False,
                     printBreakLineLiteral = False, blockTypesMapping = Map.empty,
                     rawCssInlineStyles = False\<rparr>"

definition plainBlock :: "string \<Rightarrow> EntityRange list \<Rightarrow> InlineStyleRange list \<Rightarrow> Block" where
  "plainBlock txt ers srs =
     \<lparr>blockKey = ''b'', text = txt, blockType = ''unstyled'', depth = 0,
      entityRanges = ers, inlineStyleRanges = srs\<rparr>"



section \<open>Evaluation rules\<close>

lemmas hashtag_eval =
  getHashtagRanges_def hashtagLoop.simps hashtagCond_def hashtagStep_def hashtagSeek_def
  hashtagEmit_def startsWith_def substr_def substr0_def Let_def

lemmas style_eval =
  getStyleSections_def styleLoop.simps getStyleArrayForBlock_def applyStyleRange_def
  applyStyleAt_def setStyle_def emptyInlineStyles_def startsWith_def substring_def upto.simps
  INLINE_STYLE_NAMES_def BOOLEAN_INLINE_STYLE_NAMES_def STRING_INLINE_STYLE_NAMES_def
  getStylesAtOffset_def sameStyleAsPrevious_def truthy_def extendLast_def charAt_def
  isJSONObjectString_def

lemmas markup_eval =
  getSectionMarkdown_def addStylePropertyMarkdown_def stylePropertyStep_def styleProperty_def
  valueString_def getSectionText_def joinEmpty_def escapeChar_def
  getStyleTagSectionMarkdown_def addInlineStyleMarkdown_def mergedStyleTransform_def
  defaultStyleTransform_def

lemmas block_eval =
  getBlockContentMarkdown_def isAtomicBlock_def isEmptyString_def getSections_def
  sectionRanges_def gapSection_def rangeSection_def entityPreSection_def
  trimLeadingZeros_def trimLeadingLoop.simps trimTrailingZeros_def trimTrailingLoop.simps

section \<open>The hashtag scan\<close>

lemma hashtagEmit_textH: "textH (hashtagEmit hc s) = textH s"
  by (simp add: hashtagEmit_def Let_def)

lemma hashtagEmit_startIndex: "startIndex (hashtagEmit hc s) = startIndex s"
  by (simp add: hashtagEmit_def Let_def)

lemma hashtagSeek_progress:
  assumes "trigger hc \<noteq> []" and "textH s \<noteq> []"
  shows "length (textH (hashtagSeek hc s)) < length (textH s) \<or> startIndex (hashtagSeek hc s) < 0"
proof -
  have shrink: "length (drop (nat (k + int (length (separator hc @ trigger hc)))) (textH s))
                  < length (textH s)" if "0 \<le> k" for k
  proof -
    from assms(1) have "0 < length (separator hc @ trigger hc)" by simp
    with that have "0 < nat (k + int (length (separator hc @ trigger hc)))" by linarith
    with assms(2) show ?thesis by (cases "textH s") auto
  qed
  from assms have "length (drop (length (trigger hc)) (textH s)) < length (textH s)"
    by (cases "textH s") auto
  with shrink show ?thesis
    by (simp add: hashtagSeek_def substr_def Let_def del: length_append length_drop)
qed

lemma hashtagStep_progress:
  assumes "trigger hc \<noteq> []" and "hashtagCond s"
  shows "length (textH (hashtagStep hc s)) < length (textH s) \<or> \<not> hashtagCond (hashtagStep hc s)"
proof -
  from assms(2) have "textH s \<noteq> []" by (simp add: hashtagCond_def)
  from hashtagSeek_progress [OF assms(1) this]
  show ?thesis
    by (auto simp: hashtagStep_def hashtagEmit_textH hashtagEmit_startIndex hashtagCond_def)
qed

lemma hashtagLoop_returns:
  assumes "trigger hc \<noteq> []"
  shows "hashtagLoop hc s \<noteq> None"
proof (induction "length (textH s)" arbitrary: s rule: less_induct)
  case less
  show ?case
  proof (cases "hashtagCond s")
    case False
    then show ?thesis by (simp add: hashtagLoop.simps)
  next
    case True
    from hashtagStep_progress [OF assms True]
    consider "length (textH (hashtagStep hc s)) < length (textH s)"
      | "\<not> hashtagCond (hashtagStep hc s)" by blast
    then have "hashtagLoop hc (hashtagStep hc s) \<noteq> None"
    proof cases
      case 1
      then show ?thesis by (rule less)
    next
      case 2
      then show ?thesis by (simp add: hashtagLoop.simps)
    qed
    with True show ?thesis by (subst hashtagLoop.simps) simp
  qed
qed

text \<open>
  Claim C10. With a non-empty trigger the hashtag scan returns on every text: an iteration
  of its loop either leaves a strictly shorter working text or makes the loop condition
  false.
\<close>

theorem getHashtagRanges_terminates:
  assumes "trigger hc \<noteq> []"
  shows "(hashtagCond s \<longrightarrow>
            length (textH (hashtagStep hc s)) < length (textH s)
            \<or> \<not> hashtagCond (hashtagStep hc s))
         \<and> getHashtagRanges txt hc \<noteq> None"
  using hashtagStep_progress [OF assms] hashtagLoop_returns [OF assms]
  by (simp add: getHashtagRanges_def)

text \<open>
  The theorem at the default configuration: the first iteration on \<open>a #b\<close> shortens the
  working text, and the scan returns.
\<close>

theorem getHashtagRanges_terminates_witness:
  "trigger defaultHashConfig \<noteq> []
   \<and> hashtagCond \<lparr>textH = ''a #b'', counter = 0, startIndex = 0, preSections = []\<rparr>
   \<and> length (textH (hashtagStep defaultHashConfig
                      \<lparr>textH = ''a #b'', counter = 0, startIndex = 0, preSections = []\<rparr>)) < 4
   \<and> getHashtagRanges ''a #b'' defaultHashConfig \<noteq> None"
proof -
  have h: "trigger defaultHashConfig \<noteq> []" by (simp add: defaultHashConfig_def)
  have c: "hashtagCond \<lparr>textH = ''a #b'', counter = 0, startIndex = 0, preSections = []\<rparr>"
    by (simp add: hashtagCond_def)
  have l: "length (textH (hashtagStep defaultHashConfig
                      \<lparr>textH = ''a #b'', counter = 0, startIndex = 0, preSections = []\<rparr>)) < 4"
    by (simp add: defaultHashConfig_def hashtag_eval)
  from getHashtagRanges_terminates
         [OF h, of "\<lparr>textH = ''a #b'', counter = 0, startIndex = 0, preSections = []\<rparr>" "''a #b''"]
       h c l
  show ?thesis by simp
qed

text \<open>
  Claim C5. On the text \<open>hello #world foo\<close> with trigger \<open>#\<close> and separator space, the scan
  returns one hashtag range, of offset 6 and length 6, which is the substring \<open>#world\<close>.
\<close>

theorem getHashtagRanges_example:
  "getHashtagRanges ''hello #world foo'' \<lparr>trigger = ''#'', separator = '' ''\<rparr>
   = Some [\<lparr>offset = 6, lengthR = 6, keyP = None, typeP = HASHTAG\<rparr>]
   \<and> substr0 (substr ''hello #world foo'' 6) 6 = ''#world''"
  by (simp add: hashtag_eval)

text \<open>
  The hypothesis on the trigger is needed: with an empty trigger an iteration changes
  neither the working text nor the loop condition, and the scan does not return.
\<close>

lemma hashtagStep_empty_trigger:
  assumes "trigger hc = []" and "hashtagCond s"
  shows "hashtagCond (hashtagStep hc s)"
  using assms
  by (simp add: hashtagStep_def hashtagSeek_def hashtagEmit_def hashtagCond_def
      startsWith_def substr_def Let_def)

lemma hashtagLoop_Some_exit:
  "hashtagLoop hc s = Some r \<Longrightarrow> trigger hc = [] \<longrightarrow> \<not> hashtagCond s"
proof (induction rule: hashtagLoop.raw_induct [rotated 1, consumes 1, case_names step])
  case (step loop hc s r)
  show ?case
  proof (intro impI notI)
    assume t: "trigger hc = []" and c: "hashtagCond s"
    from c step(2) have "loop hc (hashtagStep hc s) = Some r" by simp
    then have "trigger hc = [] \<longrightarrow> \<not> hashtagCond (hashtagStep hc s)" by (rule step(1))
    with hashtagStep_empty_trigger [OF t c] t show False by simp
  qed
qed

lemma hashtagLoop_empty_trigger:
  assumes "trigger hc = []" and "hashtagCond s"
  shows "hashtagLoop hc s = None"
proof (cases "hashtagLoop hc s")
  case None
  then show ?thesis .
next
  case (Some r)
  from hashtagLoop_Some_exit [OF Some] assms show ?thesis by simp
qed

lemma getHashtagRanges_empty_trigger:
  "getHashtagRanges ''a'' \<lparr>trigger = [], separator = '' ''\<rparr> = None"
  by (simp add: getHashtagRanges_def hashtagLoop_empty_trigger hashtagCond_def)

section \<open>Range segmentation\<close>

lemma emitSections_separated:
  "disjointRanges lo rs \<Longrightarrow> separated lo (emitSections lo rs n)"
  by (induction rs arbitrary: lo) (auto simp: gapSection_def rangeSection_def)

lemma emitSections_tagged:
  "filter tagged (emitSections lo rs n) = map rangeSection rs"
  by (induction rs arbitrary: lo) (auto simp: gapSection_def rangeSection_def tagged_def)

lemma separated_below:
  "separated lo ss \<Longrightarrow> i < lo \<Longrightarrow> coverCount ss i = 0"
  by (induction ss arbitrary: lo) (auto simp: coverCount_def covers_def)

lemma separated_coverCount:
  "separated lo ss \<Longrightarrow> coverCount ss i \<le> 1"
proof (induction ss arbitrary: lo)
  case Nil
  then show ?case by (simp add: coverCount_def)
next
  case (Cons s ss)
  then have sep: "separated (endS s) ss" by simp
  show ?case
  proof (cases "covers i s")
    case True
    then have "i < endS s" by (simp add: covers_def)
    from separated_below [OF sep this] True show ?thesis by (simp add: coverCount_def)
  next
    case False
    with Cons.IH [OF sep] show ?thesis by (simp add: coverCount_def)
  qed
qed

lemma emitSections_first:
  "disjointRanges lo rs \<Longrightarrow> emitSections lo rs n \<noteq> [] \<Longrightarrow> start (hd (emitSections lo rs n)) = lo"
  by (cases rs) (auto simp: gapSection_def rangeSection_def split: if_splits)

lemma emitSections_last:
  "finalOffset lo rs \<le> n \<Longrightarrow> emitSections lo rs n \<noteq> [] \<Longrightarrow> endS (last (emitSections lo rs n)) = n"
proof (induction rs arbitrary: lo)
  case Nil
  then show ?case by (auto simp: gapSection_def split: if_splits)
next
  case (Cons r rs)
  show ?case
  proof (cases "emitSections (offset r + lengthR r) rs n = []")
    case True
    then have "rs = []" by (cases rs) auto
    with True Cons.prems show ?thesis by (auto simp: rangeSection_def split: if_splits)
  next
    case False
    with Cons show ?thesis by simp
  qed
qed



text \<open>
  Claim C1, as amended. When the sorted entity and hashtag ranges of a block do not overlap
  (the first begins at or after 0, every length is at least 0, each begins at or after the
  end of the one before), the sections are in ascending order and do not overlap: each has
  \<open>start \<le> end\<close> and begins at or after the end of the one before, so an index lies in at
  most one section. Each range yields its tagged section \<open>[offset, offset + length)\<close>, in
  sorted order, and every other section is untagged. The first section starts at 0, and
  when the last range ends within the text the last section ends at the text's length.
\<close>

theorem getSections_separated:
  assumes "getHashtagRanges (text block) hc = Some hashtags"
    and "disjointRanges 0 (sectionRanges block hashtags)"
  shows "\<exists>sections. getSections block hc = Some sections
           \<and> separated 0 sections
           \<and> coverCount sections i \<le> 1
           \<and> filter tagged sections = map rangeSection (sectionRanges block hashtags)
           \<and> (sections \<noteq> [] \<longrightarrow> start (hd sections) = 0)
           \<and> (sections \<noteq> [] \<longrightarrow>
                finalOffset 0 (sectionRanges block hashtags) \<le> int (length (text block)) \<longrightarrow>
                endS (last sections) = int (length (text block)))"
proof -
  let ?rs = "sectionRanges block hashtags"
  let ?n = "int (length (text block))"
  let ?ss = "emitSections 0 ?rs ?n"
  have "getSections block hc = Some ?ss" using assms(1) by (simp add: getSections_def)
  moreover have sep: "separated 0 ?ss" using assms(2) by (rule emitSections_separated)
  moreover have "coverCount ?ss i \<le> 1" using sep by (rule separated_coverCount)
  moreover have "filter tagged ?ss = map rangeSection ?rs" by (rule emitSections_tagged)
  moreover have "?ss \<noteq> [] \<longrightarrow> start (hd ?ss) = 0"
    using emitSections_first [OF assms(2)] by blast
  moreover have "?ss \<noteq> [] \<longrightarrow> finalOffset 0 ?rs \<le> ?n \<longrightarrow> endS (last ?ss) = ?n"
    using emitSections_last by blast
  ultimately show ?thesis by blast
qed

text \<open>
  The theorem on the text \<open>hi #tag x\<close> with an entity over \<open>hi\<close>: the entity range
  \<open>[0, 2)\<close> and the hashtag range \<open>[3, 7)\<close> do not overlap.
\<close>

theorem getSections_separated_witness:
  "getHashtagRanges (text (plainBlock ''hi #tag x'' [\<lparr>offset = 0, lengthR = 2, key = 1\<rparr>] []))
      defaultHashConfig
     = Some [\<lparr>offset = 3, lengthR = 4, keyP = None, typeP = HASHTAG\<rparr>]
   \<and> disjointRanges 0
        (sectionRanges (plainBlock ''hi #tag x'' [\<lparr>offset = 0, lengthR = 2, key = 1\<rparr>] [])
           [\<lparr>offset = 3, lengthR = 4, keyP = None, typeP = HASHTAG\<rparr>])
   \<and> (\<exists>sections.
         getSections (plainBlock ''hi #tag x'' [\<lparr>offset = 0, lengthR = 2, key = 1\<rparr>] [])
           defaultHashConfig = Some sections
         \<and> separated 0 sections \<and> coverCount sections 1 \<le> 1
         \<and> start (hd sections) = 0 \<and> endS (last sections) = 9)"
proof -
  let ?b = "plainBlock ''hi #tag x'' [\<lparr>offset = 0, lengthR = 2, key = 1\<rparr>] []"
  let ?hs = "[\<lparr>offset = 3, lengthR = 4, keyP = None, typeP = HASHTAG\<rparr>]"
  have h1: "getHashtagRanges (text ?b) defaultHashConfig = Some ?hs"
    by (simp add: plainBlock_def defaultHashConfig_def hashtag_eval)
  have h2: "disjointRanges 0 (sectionRanges ?b ?hs)"
    by (simp add: plainBlock_def sectionRanges_def entityPreSection_def)
  have ne: "emitSections 0 (sectionRanges ?b ?hs) (int (length (text ?b))) \<noteq> []"
    by (simp add: plainBlock_def sectionRanges_def entityPreSection_def)
  have fin: "finalOffset 0 (sectionRanges ?b ?hs) \<le> int (length (text ?b))"
    by (simp add: plainBlock_def sectionRanges_def entityPreSection_def)
  have len: "int (length (text ?b)) = 9" by (simp add: plainBlock_def)
  from getSections_separated [OF h1 h2, of 1] obtain sections where
    s: "getSections ?b defaultHashConfig = Some sections" "separated 0 sections"
       "coverCount sections 1 \<le> 1"
       "sections \<noteq> [] \<longrightarrow> start (hd sections) = 0"
       "sections \<noteq> [] \<longrightarrow> finalOffset 0 (sectionRanges ?b ?hs) \<le> int (length (text ?b)) \<longrightarrow>
          endS (last sections) = int (length (text ?b))"
    by blast
  from s(1) h1 have "sections = emitSections 0 (sectionRanges ?b ?hs) (int (length (text ?b)))"
    by (simp add: getSections_def)
  with ne have "sections \<noteq> []" by simp
  with s fin len have "getSections ?b defaultHashConfig = Some sections
         \<and> separated 0 sections \<and> coverCount sections 1 \<le> 1
         \<and> start (hd sections) = 0 \<and> endS (last sections) = 9" by simp
  with h1 h2 show ?thesis by blast
qed

text \<open>
  The sections do not tile every block. On the text \<open>x #ab\<close> with an entity over \<open>#ab\<close>
  the entity range and the hashtag range are the same interval, and the section before
  them ends one index early: index 1 lies in no section and index 2 lies in two.
\<close>

theorem getSections_counterexample:
  "getSections (plainBlock ''x #ab'' [\<lparr>offset = 2, lengthR = 3, key = 0\<rparr>] []) defaultHashConfig
     = Some [\<lparr>start = 0, endS = 1, entityKey = None, typeS = None\<rparr>,
             \<lparr>start = 2, endS = 5, entityKey = Some 0, typeS = Some ENTITY\<rparr>,
             \<lparr>start = 2, endS = 5, entityKey = None, typeS = Some HASHTAG\<rparr>]
   \<and> \<not> tilesFrom 0 5 [\<lparr>start = 0, endS = 1, entityKey = None, typeS = None\<rparr>,
             \<lparr>start = 2, endS = 5, entityKey = Some 0, typeS = Some ENTITY\<rparr>,
             \<lparr>start = 2, endS = 5, entityKey = None, typeS = Some HASHTAG\<rparr>]
   \<and> coverCount [\<lparr>start = 0, endS = 1, entityKey = None, typeS = None\<rparr>,
             \<lparr>start = 2, endS = 5, entityKey = Some 0, typeS = Some ENTITY\<rparr>,
             \<lparr>start = 2, endS = 5, entityKey = None, typeS = Some HASHTAG\<rparr>] 1 = 0
   \<and> coverCount [\<lparr>start = 0, endS = 1, entityKey = None, typeS = None\<rparr>,
             \<lparr>start = 2, endS = 5, entityKey = Some 0, typeS = Some ENTITY\<rparr>,
             \<lparr>start = 2, endS = 5, entityKey = None, typeS = Some HASHTAG\<rparr>] 2 = 2"
  by (simp add: getSections_def plainBlock_def defaultHashConfig_def hashtag_eval
      sectionRanges_def entityPreSection_def gapSection_def rangeSection_def
      coverCount_def covers_def)

text \<open>
  The untagged section before a range ends at \<open>offset - 1\<close>. On the text \<open>ab\<close> with one
  entity over \<open>b\<close> it is the empty interval \<open>[0, 0)\<close>, and index 0 lies in no section.
\<close>

lemma getSections_gap_before_range:
  "getSections (plainBlock ''ab'' [\<lparr>offset = 1, lengthR = 1, key = 0\<rparr>] []) defaultHashConfig
     = Some [\<lparr>start = 0, endS = 0, entityKey = None, typeS = None\<rparr>,
             \<lparr>start = 1, endS = 2, entityKey = Some 0, typeS = Some ENTITY\<rparr>]
   \<and> coverCount [\<lparr>start = 0, endS = 0, entityKey = None, typeS = None\<rparr>,
             \<lparr>start = 1, endS = 2, entityKey = Some 0, typeS = Some ENTITY\<rparr>] 0 = 0"
  by (simp add: getSections_def plainBlock_def defaultHashConfig_def hashtag_eval
      sectionRanges_def entityPreSection_def gapSection_def rangeSection_def
      coverCount_def covers_def)

section \<open>Style segmentation\<close>

text \<open>
  Claim C2, evaluated. On the text \<open>ab\<close> with BOLD over \<open>[0, 1)\<close>, the boolean family and
  the span \<open>[0, 2)\<close>, the only section returned is \<open>[0, 1)\<close>: index 1, where the style
  changes, is in no section. On \<open>abc\<close> with the same range and the span \<open>[0, 3)\<close>, the only
  section returned runs to 3, holds the characters \<open>a\<close> and \<open>c\<close>, and spans a change of style.
\<close>

theorem getStyleSections_drops_index:
  "getStyleSections jsonEntries
     (plainBlock ''ab'' [] [\<lparr>offset = 0, lengthR = 1, style = ''BOLD''\<rparr>])
     BOOLEAN_INLINE_STYLE_NAMES 0 2 defaultConfig
   = Inr [\<lparr>styles = [(''BOLD'', BoolV True)], textS = [Some (CHR ''a'')],
           startSS = 0, endSS = 1\<rparr>]
   \<and> getStyleSections jsonEntries
     (plainBlock ''abc'' [] [\<lparr>offset = 0, lengthR = 1, style = ''BOLD''\<rparr>])
     BOOLEAN_INLINE_STYLE_NAMES 0 3 defaultConfig
   = Inr [\<lparr>styles = [(''BOLD'', BoolV True)], textS = [Some (CHR ''a''), Some (CHR ''c'')],
           startSS = 0, endSS = 3\<rparr>]"
  by (simp add: plainBlock_def defaultConfig_def style_eval)

lemma everyKeySame_iff:
  "everyKeySame inlineStyles index ks = Inr True
   \<longleftrightarrow> (\<forall>k \<in> set ks. \<exists>arr. arrays inlineStyles k = Some arr \<and> arr index = arr (index - 1))"
  by (induction ks) (auto split: option.splits)

text \<open>
  Claim C8. \<open>sameStyleAsPrevious\<close> returns a boolean on every input and raises nothing: it
  is true exactly when the index is inside the bounds and every key has an array with
  equal values at the index and the one before. An index out of bounds, a key whose
  lookup raises and a key whose values differ all give false.
\<close>

theorem sameStyleAsPrevious_total:
  "sameStyleAsPrevious inlineStyles matchKeys index
   \<longleftrightarrow> 0 < index \<and> index < lengthI inlineStyles
       \<and> (\<forall>k \<in> set matchKeys.
             \<exists>arr. arrays inlineStyles k = Some arr \<and> arr index = arr (index - 1))"
proof -
  have "sameStyleAsPrevious inlineStyles matchKeys index
        \<longleftrightarrow> 0 < index \<and> index < lengthI inlineStyles
            \<and> everyKeySame inlineStyles index matchKeys = Inr True"
    by (cases "everyKeySame inlineStyles index matchKeys")
       (auto simp: sameStyleAsPrevious_def)
  then show ?thesis by (simp only: everyKeySame_iff)
qed

text \<open>
  The theorem on arrays of length 3: indices 0, -1 and 3 are out of bounds, the key
  \<open>NOSUCH\<close> has no array, BOLD set at index 1 only differs from index 0, and unset
  arrays agree at indices 0 and 1.
\<close>

theorem sameStyleAsPrevious_total_witness:
  "\<not> sameStyleAsPrevious (emptyInlineStyles 3) [''BOLD''] 0
   \<and> \<not> sameStyleAsPrevious (emptyInlineStyles 3) [''BOLD''] (- 1)
   \<and> \<not> sameStyleAsPrevious (emptyInlineStyles 3) [''BOLD''] 3
   \<and> \<not> sameStyleAsPrevious (emptyInlineStyles 3) [''NOSUCH''] 1
   \<and> \<not> sameStyleAsPrevious (setStyle ''BOLD'' 1 (BoolV True) (emptyInlineStyles 3)) [''BOLD''] 1
   \<and> sameStyleAsPrevious (emptyInlineStyles 3) [''BOLD''] 1"
  using sameStyleAsPrevious_total [of "emptyInlineStyles 3" "[''BOLD'']" 0]
        sameStyleAsPrevious_total [of "emptyInlineStyles 3" "[''BOLD'']" "- 1"]
        sameStyleAsPrevious_total [of "emptyInlineStyles 3" "[''BOLD'']" 3]
        sameStyleAsPrevious_total [of "emptyInlineStyles 3" "[''NOSUCH'']" 1]
        sameStyleAsPrevious_total
          [of "setStyle ''BOLD'' 1 (BoolV True) (emptyInlineStyles 3)" "[''BOLD'']" 1]
        sameStyleAsPrevious_total [of "emptyInlineStyles 3" "[''BOLD'']" 1]
  by (simp add: emptyInlineStyles_def setStyle_def INLINE_STYLE_NAMES_def
      BOOLEAN_INLINE_STYLE_NAMES_def STRING_INLINE_STYLE_NAMES_def)



section \<open>Markup composition\<close>

text \<open>
  Claim C6, as amended. The escaper maps each character on its own and concatenates the
  images in order: a newline becomes the five characters backslash, \<open>s\<close>, backslash,
  \<open>s\<close>, newline; \<open>&\<close>, \<open><\<close> and \<open>>\<close> become their entities; any other character is
  unchanged.
\<close>

theorem getSectionText_per_character:
  "getSectionText (map Some cs)
   = concat (map (\<lambda>c. if c = CHR 0x0A then [CHR 0x5C, CHR ''s'', CHR 0x5C, CHR ''s'', CHR 0x0A]
                       else if c = CHR ''&'' then ''&amp;''
                       else if c = CHR ''<'' then ''&lt;''
                       else if c = CHR ''>'' then ''&gt;''
                       else [c]) cs)"
proof -
  let ?image = "\<lambda>c. if c = CHR 0x0A then [CHR 0x5C, CHR ''s'', CHR 0x5C, CHR ''s'', CHR 0x0A]
                     else if c = CHR ''&'' then ''&amp;''
                     else if c = CHR ''<'' then ''&lt;''
                     else if c = CHR ''>'' then ''&gt;''
                     else [c]"
  have "joinEmpty (map escapeChar (map Some cs)) = concat (map ?image cs)"
    by (induction cs) (simp_all add: joinEmpty_def escapeChar_def)
  then show ?thesis by (cases cs) (simp_all add: getSectionText_def)
qed

text \<open>The image of a newline is not two spaces and a newline.\<close>

theorem getSectionText_newline_counterexample:
  "getSectionText [Some (CHR 0x0A)] = [CHR 0x5C, CHR ''s'', CHR 0x5C, CHR ''s'', CHR 0x0A]
   \<and> getSectionText [Some (CHR 0x0A)] \<noteq> [CHR '' '', CHR '' '', CHR 0x0A]"
  by (simp add: getSectionText_def joinEmpty_def escapeChar_def)

text \<open>
  Claim C7. When the caller's transform returns a string for an entity and an inner text,
  the entity renderer returns that string, whatever the entity's type and also when the
  entity is missing.
\<close>

theorem getEntityMarkdown_override:
  assumes "customEntityTransform entity txt = Some html"
  shows "getEntityMarkdown entity txt (Some customEntityTransform) = Inr html"
  using assms by (simp add: getEntityMarkdown_def)

text \<open>
  The theorem on a LINK entity: a transform that answers the text \<open>x\<close> wins over the
  built-in link, which is what the renderer returns without a transform.
\<close>

theorem getEntityMarkdown_override_witness:
  "(\<lambda>e t. if t = ''x'' then Some ''custom'' else None)
       (Some \<lparr>typeE = ''LINK'', mutability = ''MUTABLE'', data = [''url'' \<mapsto> JStr ''u'']\<rparr>) ''x''
     = Some ''custom''
   \<and> getEntityMarkdown
         (Some \<lparr>typeE = ''LINK'', mutability = ''MUTABLE'', data = [''url'' \<mapsto> JStr ''u'']\<rparr>) ''x''
         (Some (\<lambda>e t. if t = ''x'' then Some ''custom'' else None)) = Inr ''custom''
   \<and> getEntityMarkdown
         (Some \<lparr>typeE = ''LINK'', mutability = ''MUTABLE'', data = [''url'' \<mapsto> JStr ''u'']\<rparr>) ''x''
         None = Inr ''[x](u)''"
  using getEntityMarkdown_override
          [of "\<lambda>e t. if t = ''x'' then Some ''custom'' else None"
              "Some \<lparr>typeE = ''LINK'', mutability = ''MUTABLE'', data = [''url'' \<mapsto> JStr ''u'']\<rparr>"
              "''x''" "''custom''"]
  by (simp add: getEntityMarkdown_def builtinEntityMarkdown_def toStr_def)

section \<open>Block assembly\<close>

text \<open>
  Claim C3, evaluated. The text \<open>ab\<close> with BOLD over \<open>[0, 2)\<close> and \<open>color-red\<close> over
  \<open>[0, 1)\<close>, under the default configuration, renders with the \<open>b\<close> missing.
\<close>

theorem getBlockContentMarkdown_nesting_example:
  \<open>getBlockContentMarkdown jsonEntries
     (plainBlock ''ab'' [] [\<lparr>offset = 0, lengthR = 2, style = ''BOLD''\<rparr>,
                            \<lparr>offset = 0, lengthR = 1, style = ''color-red''\<rparr>])
     Map.empty defaultHashConfig None defaultConfig
   = Some (Inr ''**<span style="color: red;" data-color="true">a</span>**'')\<close>
  by (simp add: plainBlock_def defaultConfig_def defaultHashConfig_def
      hashtag_eval style_eval markup_eval block_eval)

text \<open>
  Claim C4, evaluated. The text of two spaces, \<open>a b\<close> and two spaces, with no ranges, is
  one section: its leading spaces are escaped and its trailing spaces are not.
\<close>

theorem getBlockContentMarkdown_whitespace_example:
  \<open>getBlockContentMarkdown jsonEntries (plainBlock ''  a b  '' [] [])
     Map.empty defaultHashConfig None defaultConfig
   = Some (Inr ''&nbsp;&nbsp;a b  '')
   \<and> trimTrailingZeros (trimLeadingZeros ''  a b  '') = ''&nbsp;&nbsp;a b&nbsp;&nbsp;''\<close>
  by (simp add: plainBlock_def defaultConfig_def defaultHashConfig_def
      hashtag_eval style_eval markup_eval block_eval)

lemma trim_whitespace:
  assumes "list_all isWhitespace s"
  shows "trim s = []"
proof -
  from assms have allws: "dropWhile isWhitespace s = []"
    by (simp add: dropWhile_eq_Nil_conv list_all_iff)
  show ?thesis unfolding trim_def allws by simp
qed

text \<open>
  Claim C9. A block with an entity range and a non-empty text of whitespace only is
  atomic: its content is the entity renderer on the entity of the first entity range and
  the empty inner text, for every hashtag configuration, style range and configuration.
\<close>

theorem whitespace_block_atomic:
  assumes "entityRanges block = r # rs"
    and "text block \<noteq> []"
    and "list_all isWhitespace (text block)"
  shows "getBlockContentMarkdown jsonEntries block entityMap hashConfig customEntityTransform config
         = Some (getEntityMarkdown (entityMap (key r)) [] customEntityTransform)"
  using assms(1) trim_whitespace [OF assms(3)]
  by (simp add: getBlockContentMarkdown_def isAtomicBlock_def isEmptyString_def)

text \<open>The theorem on a block whose text is one space, with an IMAGE entity.\<close>

theorem whitespace_block_atomic_witness:
  "entityRanges (plainBlock '' '' [\<lparr>offset = 0, lengthR = 1, key = 7\<rparr>] [])
     = [\<lparr>offset = 0, lengthR = 1, key = 7\<rparr>]
   \<and> text (plainBlock '' '' [\<lparr>offset = 0, lengthR = 1, key = 7\<rparr>] []) \<noteq> []
   \<and> list_all isWhitespace (text (plainBlock '' '' [\<lparr>offset = 0, lengthR = 1, key = 7\<rparr>] []))
   \<and> getBlockContentMarkdown (\<lambda>s. None) (plainBlock '' '' [\<lparr>offset = 0, lengthR = 1, key = 7\<rparr>] [])
        [7 \<mapsto> \<lparr>typeE = ''IMAGE'', mutability = ''IMMUTABLE'',
                 data = [''src'' \<mapsto> JStr ''x.png'', ''alt'' \<mapsto> JStr ''y'']\<rparr>]
        defaultHashConfig None defaultConfig
      = Some (Inr ''![y](x.png)'')"
proof -
  let ?b = "plainBlock '' '' [\<lparr>offset = 0, lengthR = 1, key = 7\<rparr>] []"
  have h1: "entityRanges ?b = [\<lparr>offset = 0, lengthR = 1, key = 7\<rparr>]" by (simp add: plainBlock_def)
  have h2: "text ?b \<noteq> []" by (simp add: plainBlock_def)
  have h3: "list_all isWhitespace (text ?b)" by (simp add: plainBlock_def isWhitespace_def)
  from whitespace_block_atomic [OF h1 h2 h3] h1 h2 h3 show ?thesis
    by (simp add: getEntityMarkdown_def builtinEntityMarkdown_def toStr_def truthyJs_def)
qed


end
